theory Spec2Isabelle
  imports Main
begin

section \<open>Go values used by \<open>pkg/knuu/instance_helper.go\<close>\<close>

text \<open>
  A Go \<open>map[string]string\<close> is a partial map. Go's \<open>error\<close> interface is the datatype
  \<open>error\<close>: \<open>Cause\<close> stands for an error value made by a collaborator (the cluster client,
  the UUID source, the image builder), every other constructor is one \<open>fmt.Errorf\<close> of the
  file, holding the arguments of its format string. A returned \<open>nil\<close> error is \<open>None\<close>.
\<close>

type_synonym labels = "string \<rightharpoonup> string"

datatype error =
    Cause string
  | ErrorGeneratingUUID error
  | PortOutOfRange int
  | ErrorPatchingService string error
  | ErrorDeployingService string error
  | ErrorGettingService string error
  | FailedToGetImageName error
  | FailedToDeployPod error
  | FailedToDeletePod error
  | SrcMustBeSet
  | DestMustBeSet
  | ChownMustBeSet
  | ChownFormat
  | ErrorAddingFile string string error

text \<open>
  A slice of \<open>int\<close> is its header: the backing array it points into (\<open>None\<close> for the nil
  slice), its length and its capacity. The backing arrays live in a heap, addressed by
  their position in it; an assignment of a slice copies the header only.
\<close>

record slice =
  array :: "nat option"
  len :: nat
  cap :: nat

type_synonym heap = "int list list"

definition slice_elems :: "heap \<Rightarrow> slice \<Rightarrow> int list" where
  "slice_elems H s = (case array s of None \<Rightarrow> [] | Some a \<Rightarrow> take (len s) (H ! a))"

text \<open>\<open>s[k] = v\<close>: panics (\<open>None\<close>) when \<open>k\<close> is not below the length.\<close>

definition slice_index_set :: "heap \<Rightarrow> slice \<Rightarrow> nat \<Rightarrow> int \<Rightarrow> heap option" where
  "slice_index_set H s k v =
     (case array s of
        None \<Rightarrow> None
      | Some a \<Rightarrow>
          if k < len s \<and> a < length H \<and> len s \<le> length (H ! a)
          then Some (H[a := (H ! a)[k := v]])
          else None)"

text \<open>
  \<open>s = append(s, v)\<close>: when the capacity suffices the element is written into the backing
  array in place and only the length of the returned header grows; otherwise a new array
  is allocated. The capacity of a new array is the runtime's choice (\<open>grow\<close>), at least
  the new length.
\<close>

definition go_append :: "(nat \<Rightarrow> nat) \<Rightarrow> heap \<Rightarrow> slice \<Rightarrow> int \<Rightarrow> heap \<times> slice" where
  "go_append grow H s v =
     (case array s of
        Some a \<Rightarrow>
          if len s < cap s
          then (H[a := (H ! a)[len s := v]], s\<lparr>len := len s + 1\<rparr>)
          else (let c = max (len s + 1) (grow (cap s))
                in (H @ [slice_elems H s @ [v] @ replicate (c - len s - 1) 0],
                    \<lparr>array = Some (length H), len = len s + 1, cap = c\<rparr>))
      | None \<Rightarrow>
          (let c = max 1 (grow 0)
           in (H @ [v # replicate (c - 1) 0], \<lparr>array = Some (length H), len = 1, cap = c\<rparr>)))"

section \<open>The instance and its collaborators\<close>

text \<open>
  Modelled from the spec: the declarations of the types \<open>Instance\<close>, \<open>Volume\<close>,
  \<open>InstanceType\<close> and \<open>InstanceState\<close>, which are not in this file. The fields of
  \<open>Instance\<close> are those the file reads and writes, typed by how it uses them and by the
  spec's data model (ports are integers, \<open>command\<close> and \<open>args\<close> sequences of strings, \<open>env\<close>
  a mapping of strings, the resource requests strings). A volume declaration has a path, a
  size and an owner, of which the file reads \<open>Size\<close> only. The two enumerations are kept as
  integer tags, the \<open>String\<close> method of \<open>InstanceType\<close> is a parameter. Of the cluster's
  \<open>Service\<close> object the file reads \<open>ObjectMeta.Labels\<close> and \<open>Spec.Selector\<close>; a stateful
  set and the builder factory are only stored and passed on, so they are addresses. The
  port slices are headers into the heap; the other sequences and \<open>env\<close> are kept by their
  contents, \<open>cloneWithSuffix\<close> assigning them in the same way.
\<close>

type_synonym InstanceType = int
type_synonym InstanceState = int
type_synonym StatefulSet = nat
type_synonym BuilderFactory = nat

record Service =
  ObjectMeta_Labels :: labels
  Spec_Selector :: labels

record Volume =
  Path :: string
  Size :: string
  Owner :: int

record Instance =
  name :: string
  k8sName :: string
  imageName :: string
  state :: InstanceState
  instanceType :: InstanceType
  kubernetesService :: "Service option"
  builderFactory :: "BuilderFactory option"
  kubernetesStatefulSet :: "StatefulSet option"
  portsTCP :: slice
  portsUDP :: slice
  command :: "string list"
  args :: "string list"
  env :: labels
  volumes :: "Volume list"
  memoryRequest :: string
  memoryLimit :: string
  cpuRequest :: string
  serviceAccountName :: string

record PodConfig =
  pc_Namespace :: string
  pc_Name :: string
  pc_Labels :: labels
  pc_Image :: string
  pc_Command :: "string list"
  pc_Args :: "string list"
  pc_Env :: labels
  pc_Volumes :: "Volume list"
  pc_MemoryRequest :: string
  pc_MemoryLimit :: string
  pc_CPURequest :: string
  pc_ServiceAccountName :: string

record StatefulSetConfig =
  ss_Namespace :: string
  ss_Name :: string
  ss_Labels :: labels
  ss_Replicas :: int
  ss_PodConfig :: PodConfig

text \<open>
  Every call the file makes to a collaborator is recorded, with its arguments, in the order
  made. \<open>'q\<close> is \<open>resource.Quantity\<close>.
\<close>

datatype 'q call =
    GetServiceCall string string
  | DeployServiceCall string string labels labels slice slice
  | PatchServiceCall string string labels labels slice slice
  | DeleteServiceCall string string
  | DeployStatefulSetCall StatefulSetConfig bool
  | DeleteStatefulSetWithGracePeriodCall string string "int option"
  | DeployPersistentVolumeClaimCall string string labels 'q
  | DeletePersistentVolumeClaimCall string string
  | NewRandomCall
  | AddToBuilderCall "BuilderFactory option" string string string

text \<open>
  The collaborators are parameters. What a collaborator answers may depend on everything
  asked of it before, so each takes the calls made so far; that covers a cluster with a
  state of its own and a random UUID source. A Go function returning \<open>(*T, error)\<close>
  answers a pair, either component of which may be nil. \<open>NewRandom\<close> answers the UUID's
  \<open>String()\<close>. \<open>ParseQuantity\<close> is \<open>None\<close> where \<open>resource.MustParse\<close> panics.
  \<open>testRunIdentifier\<close> and \<open>startTime\<close> are the package's run-scoped variables \<open>identifier\<close>
  (a reserved word here) and \<open>startTime\<close>.
\<close>

record 'q world =
  testRunIdentifier :: string
  startTime :: string
  Namespace :: string
  InstanceType_String :: "InstanceType \<Rightarrow> string"
  GetService :: "'q call list \<Rightarrow> string \<Rightarrow> string \<Rightarrow> Service option \<times> error option"
  DeployService :: "'q call list \<Rightarrow> string \<Rightarrow> string \<Rightarrow> labels \<Rightarrow> labels \<Rightarrow> slice \<Rightarrow> slice
                      \<Rightarrow> Service option \<times> error option"
  PatchService :: "'q call list \<Rightarrow> string \<Rightarrow> string \<Rightarrow> labels \<Rightarrow> labels \<Rightarrow> slice \<Rightarrow> slice
                      \<Rightarrow> error option"
  DeleteService :: "'q call list \<Rightarrow> string \<Rightarrow> string \<Rightarrow> error option"
  DeployStatefulSet :: "'q call list \<Rightarrow> StatefulSetConfig \<Rightarrow> bool
                      \<Rightarrow> StatefulSet option \<times> error option"
  DeleteStatefulSetWithGracePeriod :: "'q call list \<Rightarrow> string \<Rightarrow> string \<Rightarrow> int option
                      \<Rightarrow> error option"
  DeployPersistentVolumeClaim :: "'q call list \<Rightarrow> string \<Rightarrow> string \<Rightarrow> labels \<Rightarrow> 'q
                      \<Rightarrow> error option"
  DeletePersistentVolumeClaim :: "'q call list \<Rightarrow> string \<Rightarrow> string \<Rightarrow> error option"
  NewRandom :: "'q call list \<Rightarrow> string \<times> error option"
  ParseQuantity :: "string \<Rightarrow> 'q option"
  AddToBuilder :: "'q call list \<Rightarrow> BuilderFactory option \<Rightarrow> string \<Rightarrow> string \<Rightarrow> string
                      \<Rightarrow> error option"

text \<open>
  A method of \<open>*Instance\<close> that returns \<open>error\<close> either returns (the error, the instance as
  the method left it, the calls made) or panics (the calls made before the panic).
\<close>

datatype panic = NilPointerDereference | MustParsePanic string

datatype 'q outcome =
    Return "error option" Instance "'q call list"
  | Panic panic "'q call list"

section \<open>The functions of the file\<close>

text \<open>
  Each function takes the calls made so far and returns them extended by its own. The
  \<open>logrus\<close> debug lines have no effect on the instance or on a collaborator and are left
  out, as are \<open>generateK8sName\<close>, \<open>getFreePortTCP\<close> and \<open>getBuildDir\<close>, which nothing below
  depends on.
\<close>

definition getImageRegistry ::
  "'q world \<Rightarrow> Instance \<Rightarrow> 'q call list \<Rightarrow> string \<times> error option \<times> 'q call list" where
  "getImageRegistry w i h =
     (if imageName i \<noteq> [] then (imageName i, None, h)
      else (case NewRandom w h of
              (uuid, Some err) \<Rightarrow> ([], Some (ErrorGeneratingUUID err), h @ [NewRandomCall])
            | (uuid, None) \<Rightarrow> (''ttl.sh/'' @ uuid @ '':1h'', None, h @ [NewRandomCall])))"

definition validatePort :: "int \<Rightarrow> error option" where
  "validatePort port = (if port < 1 \<or> port > 65535 then Some (PortOutOfRange port) else None)"

fun port_in :: "int list \<Rightarrow> int \<Rightarrow> bool" where
  "port_in [] port = False"
| "port_in (p # ps) port = (if p = port then True else port_in ps port)"

definition isTCPPortRegistered :: "heap \<Rightarrow> Instance \<Rightarrow> int \<Rightarrow> bool" where
  "isTCPPortRegistered H i port = port_in (slice_elems H (portsTCP i)) port"

definition isUDPPortRegistered :: "heap \<Rightarrow> Instance \<Rightarrow> int \<Rightarrow> bool" where
  "isUDPPortRegistered H i port = port_in (slice_elems H (portsUDP i)) port"

definition getLabels :: "'q world \<Rightarrow> Instance \<Rightarrow> labels" where
  "getLabels w i =
     [''app'' \<mapsto> k8sName i,
      ''k8s.kubernetes.io/managed-by'' \<mapsto> ''knuu'',
      ''test-run-id'' \<mapsto> testRunIdentifier w,
      ''test-started'' \<mapsto> startTime w,
      ''name'' \<mapsto> name i,
      ''k8s-name'' \<mapsto> k8sName i,
      ''type'' \<mapsto> InstanceType_String w (instanceType i)]"

text \<open>Lines 102 to 107 of \<open>patchService\<close>: the patch call on the handle now held.\<close>

definition patchService_call :: "'q world \<Rightarrow> Instance \<Rightarrow> 'q call list \<Rightarrow> 'q outcome" where
  "patchService_call w i h =
     (case kubernetesService i of
        None \<Rightarrow> Panic NilPointerDereference h
      | Some s \<Rightarrow>
          (let h' = h @ [PatchServiceCall (Namespace w) (k8sName i) (ObjectMeta_Labels s)
                           (Spec_Selector s) (portsTCP i) (portsUDP i)]
           in case PatchService w h (Namespace w) (k8sName i) (ObjectMeta_Labels s)
                     (Spec_Selector s) (portsTCP i) (portsUDP i) of
                Some err \<Rightarrow> Return (Some (ErrorPatchingService (k8sName i) err)) i h'
              | None \<Rightarrow> Return None i h'))"

definition patchService :: "'q world \<Rightarrow> Instance \<Rightarrow> 'q call list \<Rightarrow> 'q outcome" where
  "patchService w i h =
     (if kubernetesService i = None then
        (let h' = h @ [GetServiceCall (Namespace w) (k8sName i)]
         in case GetService w h (Namespace w) (k8sName i) of
              (svc, Some err) \<Rightarrow> Return (Some (ErrorGettingService (k8sName i) err)) i h'
            | (svc, None) \<Rightarrow> patchService_call w (i\<lparr>kubernetesService := svc\<rparr>) h')
      else patchService_call w i h)"

text \<open>Lines 82 to 90 of \<open>deployService\<close>: the creation.\<close>

definition deployService_create :: "'q world \<Rightarrow> Instance \<Rightarrow> 'q call list \<Rightarrow> 'q outcome" where
  "deployService_create w i h =
     (let labels = getLabels w i;
          selectorMap = getLabels w i;
          h' = h @ [DeployServiceCall (Namespace w) (k8sName i) labels selectorMap
                      (portsTCP i) (portsUDP i)]
      in case DeployService w h (Namespace w) (k8sName i) labels selectorMap
                (portsTCP i) (portsUDP i) of
           (service, Some err) \<Rightarrow> Return (Some (ErrorDeployingService (k8sName i) err)) i h'
         | (service, None) \<Rightarrow> Return None (i\<lparr>kubernetesService := service\<rparr>) h')"

definition deployService :: "'q world \<Rightarrow> Instance \<Rightarrow> 'q call list \<Rightarrow> 'q outcome" where
  "deployService w i h =
     (let h' = h @ [GetServiceCall (Namespace w) (k8sName i)]
      in case GetService w h (Namespace w) (k8sName i) of
           (Some svc, _) \<Rightarrow>
             (case patchService w i h' of
                Panic p hp \<Rightarrow> Panic p hp
              | Return (Some err) i1 h1 \<Rightarrow>
                  Return (Some (ErrorPatchingService (k8sName i1) err)) i1 h1
              | Return None i1 h1 \<Rightarrow> deployService_create w i1 h1)
         | (None, _) \<Rightarrow> deployService_create w i h')"

definition destroyService :: "'q world \<Rightarrow> Instance \<Rightarrow> 'q call list \<Rightarrow> 'q outcome" where
  "destroyService w i h =
     (let _ = DeleteService w h (Namespace w) (k8sName i)
      in Return None i (h @ [DeleteServiceCall (Namespace w) (k8sName i)]))"

definition deployPod :: "'q world \<Rightarrow> Instance \<Rightarrow> 'q call list \<Rightarrow> 'q outcome" where
  "deployPod w i h =
     (let labels = getLabels w i
      in case getImageRegistry w i h of
           (imageName', Some err, h1) \<Rightarrow> Return (Some (FailedToGetImageName err)) i h1
         | (imageName', None, h1) \<Rightarrow>
             (let podConfig = \<lparr>pc_Namespace = Namespace w, pc_Name = k8sName i,
                    pc_Labels = labels, pc_Image = imageName', pc_Command = command i,
                    pc_Args = args i, pc_Env = env i, pc_Volumes = volumes i,
                    pc_MemoryRequest = memoryRequest i, pc_MemoryLimit = memoryLimit i,
                    pc_CPURequest = cpuRequest i,
                    pc_ServiceAccountName = serviceAccountName i\<rparr>;
                  statefulSetConfig = \<lparr>ss_Namespace = Namespace w, ss_Name = k8sName i,
                    ss_Labels = labels, ss_Replicas = 1, ss_PodConfig = podConfig\<rparr>;
                  h2 = h1 @ [DeployStatefulSetCall statefulSetConfig True]
              in case DeployStatefulSet w h1 statefulSetConfig True of
                   (statefulSet, Some err) \<Rightarrow> Return (Some (FailedToDeployPod err)) i h2
                 | (statefulSet, None) \<Rightarrow>
                     Return None (i\<lparr>kubernetesStatefulSet := statefulSet\<rparr>) h2))"

definition destroyPod :: "'q world \<Rightarrow> Instance \<Rightarrow> 'q call list \<Rightarrow> 'q outcome" where
  "destroyPod w i h =
     (let grace = (0::int);
          h' = h @ [DeleteStatefulSetWithGracePeriodCall (Namespace w) (k8sName i) (Some grace)]
      in case DeleteStatefulSetWithGracePeriod w h (Namespace w) (k8sName i) (Some grace) of
           Some err \<Rightarrow> Return (Some (FailedToDeletePod err)) i h'
         | None \<Rightarrow> Return None i h')"

text \<open>
  The loop of \<open>deployVolume\<close>: \<open>size.Add(resource.MustParse(volume.Size))\<close> for each volume in
  order (\<open>acc\<close> and \<open>sz\<close> are the source's variable \<open>size\<close>); \<open>Inl\<close> is the panic of \<open>MustParse\<close> at
  the first size that does not parse.
\<close>

fun addSizes :: "(string \<Rightarrow> 'q option) \<Rightarrow> 'q::monoid_add \<Rightarrow> Volume list \<Rightarrow> panic + 'q" where
  "addSizes parse acc [] = Inr acc"
| "addSizes parse acc (volume # rest) =
     (case parse (Size volume) of
        None \<Rightarrow> Inl (MustParsePanic (Size volume))
      | Some q \<Rightarrow> addSizes parse (acc + q) rest)"

definition deployVolume ::
  "('q::monoid_add) world \<Rightarrow> Instance \<Rightarrow> 'q call list \<Rightarrow> 'q outcome" where
  "deployVolume w i h =
     (case addSizes (ParseQuantity w) 0 (volumes i) of
        Inl p \<Rightarrow> Panic p h
      | Inr sz \<Rightarrow>
          (let _ = DeployPersistentVolumeClaim w h (Namespace w) (k8sName i) (getLabels w i) sz
           in Return None i
                (h @ [DeployPersistentVolumeClaimCall (Namespace w) (k8sName i)
                        (getLabels w i) sz])))"

definition destroyVolume :: "'q world \<Rightarrow> Instance \<Rightarrow> 'q call list \<Rightarrow> 'q outcome" where
  "destroyVolume w i h =
     (let _ = DeletePersistentVolumeClaim w h (Namespace w) (k8sName i)
      in Return None i (h @ [DeletePersistentVolumeClaimCall (Namespace w) (k8sName i)]))"

text \<open>
  The composite literal of \<open>cloneWithSuffix\<close> names every field but
  \<open>serviceAccountName\<close>, which so takes its zero value.
\<close>

definition cloneWithSuffix :: "Instance \<Rightarrow> string \<Rightarrow> Instance" where
  "cloneWithSuffix i suffix =
     \<lparr>name = name i @ suffix,
      k8sName = k8sName i @ suffix,
      imageName = imageName i,
      state = state i,
      instanceType = instanceType i,
      kubernetesService = kubernetesService i,
      builderFactory = builderFactory i,
      kubernetesStatefulSet = kubernetesStatefulSet i,
      portsTCP = portsTCP i,
      portsUDP = portsUDP i,
      command = command i,
      args = args i,
      env = env i,
      volumes = volumes i,
      memoryRequest = memoryRequest i,
      memoryLimit = memoryLimit i,
      cpuRequest = cpuRequest i,
      serviceAccountName = []\<rparr>"

text \<open>
  \<open>strings.Contains\<close> and \<open>strings.Split\<close> at the one-byte separator the file uses them
  with: the pieces between the separators, one more than there are separators.
\<close>

definition strings_Contains :: "string \<Rightarrow> char \<Rightarrow> bool" where
  "strings_Contains s sep = (sep \<in> set s)"

fun strings_Split :: "string \<Rightarrow> char \<Rightarrow> string list" where
  "strings_Split [] sep = ['''']"
| "strings_Split (c # cs) sep =
     (if c = sep then [] # strings_Split cs sep
      else (case strings_Split cs sep of
              [] \<Rightarrow> [c] # []
            | piece # pieces \<Rightarrow> (c # piece) # pieces))"

definition validateFileArgs :: "Instance \<Rightarrow> string \<Rightarrow> string \<Rightarrow> string \<Rightarrow> error option" where
  "validateFileArgs i src dest chown =
     (if src = [] then Some SrcMustBeSet
      else if dest = [] then Some DestMustBeSet
      else if chown = [] then Some ChownMustBeSet
      else if \<not> strings_Contains chown CHR '':'' \<or> length (strings_Split chown CHR '':'') \<noteq> 2
        then Some ChownFormat
      else None)"

definition addFileToBuilder ::
  "'q world \<Rightarrow> Instance \<Rightarrow> 'q call list \<Rightarrow> string \<Rightarrow> string \<Rightarrow> string \<Rightarrow> 'q outcome" where
  "addFileToBuilder w i h src dest chown =
     (let h' = h @ [AddToBuilderCall (builderFactory i) dest dest chown]
      in case AddToBuilder w h (builderFactory i) dest dest chown of
           Some err \<Rightarrow> Return (Some (ErrorAddingFile dest (name i) err)) i h'
         | None \<Rightarrow> Return None i h')"

section \<open>Running several calls\<close>

text \<open>
  A caller that makes a second call after a first one that returned a nil error, on the
  instance and after the calls the first one left; an error or a panic of the first call
  ends the run. \<open>calls\<close> are the calls made when an outcome is reached, \<open>images_of\<close> the
  image references of the stateful sets asked for among them.
\<close>

fun then_do :: "'q outcome \<Rightarrow> (Instance \<Rightarrow> 'q call list \<Rightarrow> 'q outcome) \<Rightarrow> 'q outcome" where
  "then_do (Return None i h) f = f i h"
| "then_do (Return (Some e) i h) f = Return (Some e) i h"
| "then_do (Panic p h) f = Panic p h"

fun calls :: "'q outcome \<Rightarrow> 'q call list" where
  "calls (Return e i h) = h"
| "calls (Panic p h) = h"

fun images_of :: "'q call list \<Rightarrow> string list" where
  "images_of [] = []"
| "images_of (DeployStatefulSetCall c b # h) = pc_Image (ss_PodConfig c) # images_of h"
| "images_of (c # h) = images_of h"

section \<open>A cluster to run the functions against\<close>

text \<open>
  A small cluster in the manner of the Kubernetes API, for the examples: a resource exists
  from its creation to its deletion, creating a service whose name exists is refused,
  patching or deleting a name that does not exist is refused. What exists is computed from
  the calls made so far.
\<close>

record cluster_state =
  services :: "string \<rightharpoonup> Service"
  statefulSets :: "string list"
  claims :: "string list"

fun apply_call :: "cluster_state \<Rightarrow> 'q call \<Rightarrow> cluster_state" where
  "apply_call m (DeployServiceCall ns n l s t u) =
     (if services m n = None
      then m\<lparr>services := (services m)(n \<mapsto> \<lparr>ObjectMeta_Labels = l, Spec_Selector = s\<rparr>)\<rparr>
      else m)"
| "apply_call m (PatchServiceCall ns n l s t u) =
     (if services m n = None then m
      else m\<lparr>services := (services m)(n \<mapsto> \<lparr>ObjectMeta_Labels = l, Spec_Selector = s\<rparr>)\<rparr>)"
| "apply_call m (DeleteServiceCall ns n) = m\<lparr>services := (services m)(n := None)\<rparr>"
| "apply_call m (GetServiceCall ns n) = m"
| "apply_call m (DeployStatefulSetCall c b) = m\<lparr>statefulSets := ss_Name c # statefulSets m\<rparr>"
| "apply_call m (DeleteStatefulSetWithGracePeriodCall ns n g) =
     m\<lparr>statefulSets := removeAll n (statefulSets m)\<rparr>"
| "apply_call m (DeployPersistentVolumeClaimCall ns n l q) = m\<lparr>claims := n # claims m\<rparr>"
| "apply_call m (DeletePersistentVolumeClaimCall ns n) = m\<lparr>claims := removeAll n (claims m)\<rparr>"
| "apply_call m NewRandomCall = m"
| "apply_call m (AddToBuilderCall b s d c) = m"

definition cluster_after :: "'q call list \<Rightarrow> cluster_state" where
  "cluster_after h =
     foldl apply_call \<lparr>services = Map.empty, statefulSets = [], claims = []\<rparr> h"

definition cluster :: "int world" where
  "cluster =
     \<lparr>testRunIdentifier = ''run-1'',
      startTime = ''20240101'',
      Namespace = ''test'',
      InstanceType_String = (\<lambda>t. if t = 0 then ''BasicInstance'' else ''Unknown''),
      GetService = (\<lambda>h ns n. case services (cluster_after h) n of
                       None \<Rightarrow> (None, Some (Cause ''not found''))
                     | Some s \<Rightarrow> (Some s, None)),
      DeployService = (\<lambda>h ns n l s t u.
                       if services (cluster_after h) n = None
                       then (Some \<lparr>ObjectMeta_Labels = l, Spec_Selector = s\<rparr>, None)
                       else (None, Some (Cause ''already exists''))),
      PatchService = (\<lambda>h ns n l s t u.
                       if services (cluster_after h) n = None
                       then Some (Cause ''not found'') else None),
      DeleteService = (\<lambda>h ns n.
                       if services (cluster_after h) n = None
                       then Some (Cause ''not found'') else None),
      DeployStatefulSet = (\<lambda>h c b. (Some (length h), None)),
      DeleteStatefulSetWithGracePeriod = (\<lambda>h ns n g.
                       if n \<in> set (statefulSets (cluster_after h))
                       then None else Some (Cause ''not found'')),
      DeployPersistentVolumeClaim = (\<lambda>h ns n l q. None),
      DeletePersistentVolumeClaim = (\<lambda>h ns n.
                       if n \<in> set (claims (cluster_after h))
                       then None else Some (Cause ''not found'')),
      NewRandom = (\<lambda>h. (''uuid-'' @ replicate (length h) CHR ''x'', None)),
      ParseQuantity = (\<lambda>s. if s = ''1Gi'' then Some 1073741824
                            else if s = ''2Gi'' then Some 2147483648 else None),
      AddToBuilder = (\<lambda>h b s d c. None)\<rparr>"

text \<open>The same cluster, but one that refuses every volume claim.\<close>

definition cluster_without_storage :: "int world" where
  "cluster_without_storage =
     cluster\<lparr>DeployPersistentVolumeClaim := (\<lambda>h ns n l q. Some (Cause ''quota exceeded''))\<rparr>"

text \<open>
  An instance named \<open>web\<close> with three TCP ports in a backing array of capacity four (what
  three appends to a nil slice leave), and the heap holding that array.
\<close>

definition web :: Instance where
  "web =
     \<lparr>name = ''web'',
      k8sName = ''web-1a2b3c4d'',
      imageName = [],
      state = 0,
      instanceType = 0,
      kubernetesService = None,
      builderFactory = Some 0,
      kubernetesStatefulSet = None,
      portsTCP = \<lparr>array = Some 0, len = 3, cap = 4\<rparr>,
      portsUDP = \<lparr>array = None, len = 0, cap = 0\<rparr>,
      command = [],
      args = [],
      env = Map.empty,
      volumes = [\<lparr>Path = ''/data'', Size = ''1Gi'', Owner = 0\<rparr>],
      memoryRequest = [],
      memoryLimit = [],
      cpuRequest = [],
      serviceAccountName = []\<rparr>"

definition web_heap :: heap where
  "web_heap = [80, 8080, 443, 0] # []"

text \<open>
  \<open>web\<close> after its service was deployed on the empty cluster, and the calls of that
  deployment; \<open>web\<close> with a second volume, with a volume whose size is no quantity, and
  with its image set; a
  cluster in which a service of \<open>web\<close>'s cluster name exists without any label; a runtime
  that doubles the capacity of a full slice.
\<close>

definition web_deployed :: Instance where
  "web_deployed =
     web\<lparr>kubernetesService :=
           Some \<lparr>ObjectMeta_Labels = getLabels cluster web,
                 Spec_Selector = getLabels cluster web\<rparr>\<rparr>"

definition web_deployed_calls :: "int call list" where
  "web_deployed_calls =
     [GetServiceCall ''test'' ''web-1a2b3c4d'',
      DeployServiceCall ''test'' ''web-1a2b3c4d'' (getLabels cluster web) (getLabels cluster web)
        (portsTCP web) (portsUDP web)]"

definition web_two_volumes :: Instance where
  "web_two_volumes =
     web\<lparr>volumes := [\<lparr>Path = ''/data'', Size = ''1Gi'', Owner = 0\<rparr>,
                      \<lparr>Path = ''/logs'', Size = ''2Gi'', Owner = 0\<rparr>]\<rparr>"

definition web_bad_volume :: Instance where
  "web_bad_volume = web\<lparr>volumes := [\<lparr>Path = ''/data'', Size = ''lots'', Owner = 0\<rparr>]\<rparr>"

definition web_with_image :: Instance where
  "web_with_image = web\<lparr>imageName := ''nginx:1.25''\<rparr>"

definition unlabelled_service_calls :: "int call list" where
  "unlabelled_service_calls =
     [DeployServiceCall ''test'' ''web-1a2b3c4d'' Map.empty Map.empty (portsTCP web) (portsUDP web)]"

definition unlabelled_service :: Service where
  "unlabelled_service = \<lparr>ObjectMeta_Labels = Map.empty, Spec_Selector = Map.empty\<rparr>"

definition grow_double :: "nat \<Rightarrow> nat" where
  "grow_double c = 2 * c"

section \<open>Facts about the cluster and the helper functions\<close>

lemma cluster_service_calls:
  "Namespace cluster = ''test''"
  "GetService cluster h ns n
     = (case services (cluster_after h) n of
          None \<Rightarrow> (None, Some (Cause ''not found''))
        | Some s \<Rightarrow> (Some s, None))"
  "DeployService cluster h ns n l s t u
     = (if services (cluster_after h) n = None
        then (Some \<lparr>ObjectMeta_Labels = l, Spec_Selector = s\<rparr>, None)
        else (None, Some (Cause ''already exists'')))"
  "PatchService cluster h ns n l s t u
     = (if services (cluster_after h) n = None then Some (Cause ''not found'') else None)"
  by (simp_all add: cluster_def)

lemma web_fields:
  "k8sName web = ''web-1a2b3c4d''"
  "kubernetesService web = None"
  by (simp_all add: web_def)

lemma getLabels_kubernetesService:
  "getLabels w (i\<lparr>kubernetesService := s\<rparr>) = getLabels w i"
  by (simp add: getLabels_def)

lemma length_strings_Split: "length (strings_Split s sep) = Suc (count_list s sep)"
  by (induction s) (auto split: list.splits)

lemma strings_Contains_count: "strings_Contains s sep \<longleftrightarrow> 0 < count_list s sep"
  unfolding strings_Contains_def by (induction s) auto

lemma addSizes_all_parse:
  "\<forall>v \<in> set vs. parse (Size v) \<noteq> None
   \<Longrightarrow> addSizes parse acc vs = Inr (acc + sum_list (map (\<lambda>v. the (parse (Size v))) vs))"
  by (induction vs arbitrary: acc) (auto simp: add.assoc)

lemma addSizes_some_fails:
  "\<exists>v \<in> set vs. parse (Size v) = None \<Longrightarrow> \<exists>s. addSizes parse acc vs = Inl (MustParsePanic s)"
  by (induction vs arbitrary: acc) (auto split: option.splits)

lemma slice_index_set_elems:
  "slice_index_set H s k v = Some H' \<Longrightarrow> slice_elems H' s = (slice_elems H s)[k := v]"
  by (auto simp: slice_index_set_def slice_elems_def take_update_swap
      split: option.splits if_splits)

lemma images_of_append: "images_of (h @ h') = images_of h @ images_of h'"
  by (induction h rule: images_of.induct) simp_all

lemma deployPod_keeps_imageName:
  "deployPod w i h = Return e i1 h1 \<Longrightarrow> imageName i1 = imageName i"
  by (auto simp: deployPod_def Let_def split: prod.splits option.splits)

lemma deployPod_image_set:
  "imageName i \<noteq> [] \<Longrightarrow> images_of (calls (deployPod w i h)) = images_of h @ [imageName i]"
  by (auto simp: deployPod_def getImageRegistry_def Let_def images_of_append
      split: prod.splits option.splits)

lemma patchService_call_eq:
  "kubernetesService i = Some s \<Longrightarrow>
   patchService_call w i h
     = Return (map_option (ErrorPatchingService (k8sName i))
                 (PatchService w h (Namespace w) (k8sName i) (ObjectMeta_Labels s)
                    (Spec_Selector s) (portsTCP i) (portsUDP i)))
         i
         (h @ [PatchServiceCall (Namespace w) (k8sName i) (ObjectMeta_Labels s)
                 (Spec_Selector s) (portsTCP i) (portsUDP i)])"
  by (simp add: patchService_call_def Let_def split: option.splits)

text \<open>
  Whenever the lookup finds the service and the patch goes through, \<open>deployService\<close> goes on
  to the creation: nothing returns between the patch and \<open>k8s.DeployService\<close>.
\<close>

lemma deployService_existing_patches_then_creates:
  "GetService w h (Namespace w) (k8sName i) = (Some svc, e)
   \<Longrightarrow> patchService w i (h @ [GetServiceCall (Namespace w) (k8sName i)]) = Return None i1 h1
   \<Longrightarrow> deployService w i h = deployService_create w i1 h1"
  by (simp add: deployService_def Let_def)

text \<open>On a cluster without the service, \<open>deployService\<close> creates it and keeps the handle.\<close>

lemma deployService_absent_creates:
  "GetService w h (Namespace w) (k8sName i) = (None, e)
   \<Longrightarrow> deployService w i h
       = deployService_create w i (h @ [GetServiceCall (Namespace w) (k8sName i)])"
  by (simp add: deployService_def Let_def)

section \<open>Services\<close>

text \<open>
  C1. Claimed: \<open>deployService\<close> on a service that exists patches it and attempts no second
  creation, so that deploying twice in a row gives no error. The code: on the empty
  cluster the first \<open>deployService\<close> of \<open>web\<close> creates the service; the second one finds it,
  patches it, and then calls \<open>k8s.DeployService\<close> all the same, which this cluster refuses,
  and \<open>deployService\<close> returns that error.
\<close>

theorem deployService_twice_second_creates_again:
  "deployService cluster web [] = Return None web_deployed web_deployed_calls
   \<and> GetService cluster web_deployed_calls ''test'' ''web-1a2b3c4d''
       = (kubernetesService web_deployed, None)
   \<and> deployService cluster web_deployed web_deployed_calls
       = Return (Some (ErrorDeployingService ''web-1a2b3c4d'' (Cause ''already exists'')))
           web_deployed
           (web_deployed_calls @
            [GetServiceCall ''test'' ''web-1a2b3c4d'',
             PatchServiceCall ''test'' ''web-1a2b3c4d'' (getLabels cluster web)
               (getLabels cluster web) (portsTCP web) (portsUDP web),
             DeployServiceCall ''test'' ''web-1a2b3c4d'' (getLabels cluster web)
               (getLabels cluster web) (portsTCP web) (portsUDP web)])"
  by (simp add: deployService_def deployService_create_def patchService_def
      patchService_call_def web_deployed_def web_deployed_calls_def Let_def
      cluster_service_calls cluster_after_def web_fields getLabels_kubernetesService)

text \<open>
  C2, as claimed, fails: \<open>patchService\<close> does not send the labels that \<open>getLabels\<close> derives
  for the instance. Where a service of \<open>web\<close>'s cluster name exists without labels,
  \<open>patchService\<close> fetches it, succeeds, and the patch it sent carries that service's own
  (empty) labels and selector, while \<open>getLabels\<close> has an \<open>app\<close> label for \<open>web\<close>.
\<close>

theorem patchService_labels_counterexample:
  "services (cluster_after unlabelled_service_calls) ''web-1a2b3c4d'' = Some unlabelled_service
   \<and> patchService cluster web unlabelled_service_calls
       = Return None (web\<lparr>kubernetesService := Some unlabelled_service\<rparr>)
           (unlabelled_service_calls @
            [GetServiceCall ''test'' ''web-1a2b3c4d'',
             PatchServiceCall ''test'' ''web-1a2b3c4d'' (ObjectMeta_Labels unlabelled_service)
               (Spec_Selector unlabelled_service) (portsTCP web) (portsUDP web)])
   \<and> ObjectMeta_Labels unlabelled_service ''app'' = None
   \<and> Spec_Selector unlabelled_service ''app'' = None
   \<and> getLabels cluster web ''app'' = Some ''web-1a2b3c4d''"
  by (simp add: patchService_def patchService_call_def unlabelled_service_calls_def
      unlabelled_service_def cluster_def cluster_after_def web_def getLabels_def)

text \<open>
  C2, amended. \<open>patchService\<close> sends one patch for the instance's cluster name, carrying the
  labels and the selector of the service handle it holds (the cached one, or else the one
  it has just fetched and now caches) together with the instance's \<open>portsTCP\<close> and
  \<open>portsUDP\<close>, and returns an error exactly when the patch call does; when no handle is
  cached and the fetch answers an error, it sends no patch and fails with the lookup error
  wrapping that answer.
\<close>

theorem patchService_sends_handle_labels:
  "(kubernetesService i = Some s \<longrightarrow>
      patchService w i h
        = Return (map_option (ErrorPatchingService (k8sName i))
                    (PatchService w h (Namespace w) (k8sName i) (ObjectMeta_Labels s)
                       (Spec_Selector s) (portsTCP i) (portsUDP i)))
            i
            (h @ [PatchServiceCall (Namespace w) (k8sName i) (ObjectMeta_Labels s)
                    (Spec_Selector s) (portsTCP i) (portsUDP i)]))
   \<and> (kubernetesService i = None
        \<and> GetService w h (Namespace w) (k8sName i) = (Some s, None) \<longrightarrow>
      patchService w i h
        = Return (map_option (ErrorPatchingService (k8sName i))
                    (PatchService w (h @ [GetServiceCall (Namespace w) (k8sName i)])
                       (Namespace w) (k8sName i) (ObjectMeta_Labels s)
                       (Spec_Selector s) (portsTCP i) (portsUDP i)))
            (i\<lparr>kubernetesService := Some s\<rparr>)
            (h @ [GetServiceCall (Namespace w) (k8sName i),
                  PatchServiceCall (Namespace w) (k8sName i) (ObjectMeta_Labels s)
                    (Spec_Selector s) (portsTCP i) (portsUDP i)]))
   \<and> (kubernetesService i = None
        \<and> GetService w h (Namespace w) (k8sName i) = (svc, Some err) \<longrightarrow>
      patchService w i h
        = Return (Some (ErrorGettingService (k8sName i) err)) i
            (h @ [GetServiceCall (Namespace w) (k8sName i)]))"
  by (simp add: patchService_def patchService_call_eq Let_def)

theorem patchService_sends_handle_labels_witness:
  "kubernetesService web_deployed
     = Some \<lparr>ObjectMeta_Labels = getLabels cluster web, Spec_Selector = getLabels cluster web\<rparr>
   \<and> patchService cluster web_deployed web_deployed_calls
       = Return None web_deployed
           (web_deployed_calls @
            [PatchServiceCall ''test'' ''web-1a2b3c4d'' (getLabels cluster web)
               (getLabels cluster web) (portsTCP web) (portsUDP web)])
   \<and> kubernetesService web = None
   \<and> GetService cluster unlabelled_service_calls (Namespace cluster) (k8sName web)
       = (Some unlabelled_service, None)
   \<and> patchService cluster web unlabelled_service_calls
       = Return None (web\<lparr>kubernetesService := Some unlabelled_service\<rparr>)
           (unlabelled_service_calls @
            [GetServiceCall ''test'' ''web-1a2b3c4d'',
             PatchServiceCall ''test'' ''web-1a2b3c4d'' Map.empty Map.empty
               (portsTCP web) (portsUDP web)])
   \<and> GetService cluster [] (Namespace cluster) (k8sName web) = (None, Some (Cause ''not found''))
   \<and> patchService cluster web []
       = Return (Some (ErrorGettingService ''web-1a2b3c4d'' (Cause ''not found''))) web
           [GetServiceCall ''test'' ''web-1a2b3c4d'']"
  using patchService_sends_handle_labels [of web_deployed
      "\<lparr>ObjectMeta_Labels = getLabels cluster web, Spec_Selector = getLabels cluster web\<rparr>"
      cluster web_deployed_calls]
    patchService_sends_handle_labels [of web unlabelled_service cluster
      unlabelled_service_calls]
    patchService_sends_handle_labels [of web _ cluster "[]" None "Cause ''not found''"]
  by (simp add: web_deployed_def web_deployed_calls_def unlabelled_service_calls_def
      unlabelled_service_def cluster_def cluster_after_def web_def)

section \<open>Teardown\<close>

text \<open>
  C10. Whatever the delete call of the cluster client answers, \<open>destroyService\<close> and
  \<open>destroyVolume\<close> return a nil error: the answer is dropped, so no failure of a service
  or volume teardown reaches the caller. Each makes the one delete call, by cluster name.
\<close>

theorem destroy_returns_nil_always:
  "destroyService w i h = Return None i (h @ [DeleteServiceCall (Namespace w) (k8sName i)])
   \<and> destroyVolume w i h
       = Return None i (h @ [DeletePersistentVolumeClaimCall (Namespace w) (k8sName i)])"
  by (simp add: destroyService_def destroyVolume_def)

text \<open>
  C7. Teardown of what is not there succeeds: when the cluster client answers the delete
  of the service, or of the volume claim, with an error (as it does for a resource that is
  not found), \<open>destroyService\<close>, respectively \<open>destroyVolume\<close>, still returns a nil error.
\<close>

theorem destroy_absent_resource_succeeds:
  "(DeleteService w h (Namespace w) (k8sName i) = Some notFound
      \<longrightarrow> (\<exists>h'. destroyService w i h = Return None i h'))
   \<and> (DeletePersistentVolumeClaim w h (Namespace w) (k8sName i) = Some notFound
      \<longrightarrow> (\<exists>h'. destroyVolume w i h = Return None i h'))"
  by (simp add: destroyService_def destroyVolume_def)

theorem destroy_absent_resource_succeeds_witness:
  "DeleteService cluster [] (Namespace cluster) (k8sName web) = Some (Cause ''not found'')
   \<and> DeletePersistentVolumeClaim cluster [] (Namespace cluster) (k8sName web)
       = Some (Cause ''not found'')
   \<and> (\<exists>h'. destroyService cluster web [] = Return None web h')
   \<and> (\<exists>h'. destroyVolume cluster web [] = Return None web h')"
  using destroy_absent_resource_succeeds [of cluster "[]" web "Cause ''not found''"]
  by (simp add: cluster_def cluster_after_def)

text \<open>
  C8. \<open>destroyPod\<close> asks for the deletion of the stateful set with a grace period of zero
  seconds, and returns an error exactly when that call does: every error of the call comes
  back wrapped, none is dropped.
\<close>

theorem destroyPod_zero_grace_propagates:
  "(DeleteStatefulSetWithGracePeriod w h (Namespace w) (k8sName i) (Some 0) = Some e
      \<longrightarrow> destroyPod w i h
          = Return (Some (FailedToDeletePod e)) i
              (h @ [DeleteStatefulSetWithGracePeriodCall (Namespace w) (k8sName i) (Some 0)]))
   \<and> (DeleteStatefulSetWithGracePeriod w h (Namespace w) (k8sName i) (Some 0) = None
      \<longrightarrow> destroyPod w i h
          = Return None i
              (h @ [DeleteStatefulSetWithGracePeriodCall (Namespace w) (k8sName i) (Some 0)]))"
  by (simp add: destroyPod_def)

theorem destroyPod_zero_grace_propagates_witness:
  "DeleteStatefulSetWithGracePeriod cluster [] (Namespace cluster) (k8sName web) (Some 0)
     = Some (Cause ''not found'')
   \<and> destroyPod cluster web []
     = Return (Some (FailedToDeletePod (Cause ''not found''))) web
         [DeleteStatefulSetWithGracePeriodCall ''test'' ''web-1a2b3c4d'' (Some 0)]
   \<and> DeleteStatefulSetWithGracePeriod cluster
        (calls (deployPod cluster web [])) (Namespace cluster) (k8sName web) (Some 0) = None
   \<and> destroyPod cluster web (calls (deployPod cluster web []))
     = Return None web
         (calls (deployPod cluster web []) @
          [DeleteStatefulSetWithGracePeriodCall ''test'' ''web-1a2b3c4d'' (Some 0)])"
  using destroyPod_zero_grace_propagates [of cluster "[]" web "Cause ''not found''"]
    destroyPod_zero_grace_propagates [of cluster "calls (deployPod cluster web [])" web]
  by (simp add: cluster_def cluster_after_def web_def deployPod_def getImageRegistry_def
      Let_def)

section \<open>Volumes\<close>

text \<open>
  C3, as claimed, fails twice over. A size that is no quantity makes \<open>deployVolume\<close> panic
  (\<open>resource.MustParse\<close>) rather than return an error; and on a cluster that answers the
  creation of the claim with an error, \<open>deployVolume\<close> returns nil.
\<close>

theorem deployVolume_error_counterexample:
  "ParseQuantity cluster ''lots'' = None
   \<and> deployVolume cluster web_bad_volume [] = Panic (MustParsePanic ''lots'') []
   \<and> DeployPersistentVolumeClaim cluster_without_storage [] ''test'' ''web-1a2b3c4d''
        (getLabels cluster_without_storage web) (2 ^ 30) = Some (Cause ''quota exceeded'')
   \<and> deployVolume cluster_without_storage web []
       = Return None web
           [DeployPersistentVolumeClaimCall ''test'' ''web-1a2b3c4d''
              (getLabels cluster_without_storage web) (2 ^ 30)]"
  by (simp add: deployVolume_def cluster_without_storage_def cluster_def web_def
      web_bad_volume_def)

text \<open>
  C3, amended. \<open>deployVolume\<close> never returns an error. When a declared size does not parse
  as a quantity it panics, before any claim is asked for; when every declared size parses
  it makes the one call that asks for the persistent volume claim (by cluster name, with
  the instance's labels, sized to the sum of the declared sizes) and returns nil, whatever
  the cluster answers to that creation.
\<close>

theorem deployVolume_panics_or_returns_nil:
  "((\<exists>v \<in> set (volumes i). ParseQuantity w (Size v) = None)
      \<longrightarrow> (\<exists>s. deployVolume w i h = Panic (MustParsePanic s) h))
   \<and> ((\<forall>v \<in> set (volumes i). ParseQuantity w (Size v) \<noteq> None)
      \<longrightarrow> deployVolume w i h
          = Return None i
              (h @ [DeployPersistentVolumeClaimCall (Namespace w) (k8sName i) (getLabels w i)
                      (sum_list (map (\<lambda>v. the (ParseQuantity w (Size v))) (volumes i)))]))
   \<and> (\<forall>e i' h'. deployVolume w i h \<noteq> Return (Some e) i' h')"
proof (intro conjI impI)
  assume "\<exists>v \<in> set (volumes i). ParseQuantity w (Size v) = None"
  from addSizes_some_fails [OF this, of 0]
  show "\<exists>s. deployVolume w i h = Panic (MustParsePanic s) h"
    by (auto simp: deployVolume_def)
next
  assume "\<forall>v \<in> set (volumes i). ParseQuantity w (Size v) \<noteq> None"
  then show "deployVolume w i h
      = Return None i
          (h @ [DeployPersistentVolumeClaimCall (Namespace w) (k8sName i) (getLabels w i)
                  (sum_list (map (\<lambda>v. the (ParseQuantity w (Size v))) (volumes i)))])"
    by (simp add: deployVolume_def addSizes_all_parse)
next
  show "\<forall>e i' h'. deployVolume w i h \<noteq> Return (Some e) i' h'"
    by (simp add: deployVolume_def split: sum.splits)
qed

theorem deployVolume_panics_or_returns_nil_witness:
  "(\<exists>v \<in> set (volumes web_bad_volume). ParseQuantity cluster (Size v) = None)
   \<and> (\<exists>s. deployVolume cluster web_bad_volume [] = Panic (MustParsePanic s) [])
   \<and> map (\<lambda>v. ParseQuantity cluster_without_storage (Size v)) (volumes web) = [Some (2 ^ 30)]
   \<and> DeployPersistentVolumeClaim cluster_without_storage [] ''test'' ''web-1a2b3c4d''
        (getLabels cluster_without_storage web) (2 ^ 30) = Some (Cause ''quota exceeded'')
   \<and> deployVolume cluster_without_storage web []
       = Return None web
           [DeployPersistentVolumeClaimCall ''test'' ''web-1a2b3c4d''
              (getLabels cluster_without_storage web) (2 ^ 30)]"
  using deployVolume_panics_or_returns_nil [of web_bad_volume cluster "[]"]
    deployVolume_panics_or_returns_nil [of web cluster_without_storage "[]"]
  by (simp add: cluster_without_storage_def cluster_def web_def web_bad_volume_def)

text \<open>
  C4. When every declared volume size parses, \<open>deployVolume\<close> asks for exactly one
  persistent volume claim, named by the cluster name, carrying the instance's labels, of a
  capacity that is the sum of the declared sizes: 1Gi for the one volume of 1Gi, 3Gi for
  volumes of 1Gi and 2Gi.
\<close>

theorem deployVolume_one_claim_of_total_size:
  "\<forall>v \<in> set (volumes i). ParseQuantity w (Size v) \<noteq> None
   \<Longrightarrow> deployVolume w i h
       = Return None i
           (h @ [DeployPersistentVolumeClaimCall (Namespace w) (k8sName i) (getLabels w i)
                   (sum_list (map (\<lambda>v. the (ParseQuantity w (Size v))) (volumes i)))])"
  by (simp add: deployVolume_def addSizes_all_parse)

theorem deployVolume_one_claim_of_total_size_witness:
  "map (\<lambda>v. ParseQuantity cluster (Size v)) (volumes web) = [Some (2 ^ 30)]
   \<and> map (\<lambda>v. ParseQuantity cluster (Size v)) (volumes web_two_volumes)
       = [Some (2 ^ 30), Some (2 ^ 31)]
   \<and> deployVolume cluster web []
       = Return None web
           [DeployPersistentVolumeClaimCall ''test'' ''web-1a2b3c4d'' (getLabels cluster web)
              (2 ^ 30)]
   \<and> deployVolume cluster web_two_volumes []
       = Return None web_two_volumes
           [DeployPersistentVolumeClaimCall ''test'' ''web-1a2b3c4d''
              (getLabels cluster web_two_volumes) (3 * 2 ^ 30)]"
  using deployVolume_one_claim_of_total_size [of web cluster "[]"]
    deployVolume_one_claim_of_total_size [of web_two_volumes cluster "[]"]
  by (simp add: cluster_def web_def web_two_volumes_def)

section \<open>Cloning\<close>

text \<open>
  C5, as claimed, fails: the clone's \<open>portsTCP\<close> is no copy. An element written through
  the clone's slice changes what the original has registered (port 80 is gone from
  \<open>web\<close>); and the other way round, a port appended to the clone lies in the spare
  capacity of the shared array, where the next append to the original overwrites it.
\<close>

theorem cloneWithSuffix_isolation_counterexample:
  "isTCPPortRegistered web_heap web 80
   \<and> slice_index_set web_heap (portsTCP (cloneWithSuffix web ''-2'')) 0 9999
       = Some ([9999, 8080, 443, 0] # [])
   \<and> \<not> isTCPPortRegistered ([9999, 8080, 443, 0] # []) web 80
   \<and> go_append grow_double web_heap (portsTCP (cloneWithSuffix web ''-2'')) 9000
       = ([80, 8080, 443, 9000] # [], \<lparr>array = Some 0, len = 4, cap = 4\<rparr>)
   \<and> isTCPPortRegistered ([80, 8080, 443, 9000] # [])
        ((cloneWithSuffix web ''-2'')\<lparr>portsTCP := \<lparr>array = Some 0, len = 4, cap = 4\<rparr>\<rparr>) 9000
   \<and> go_append grow_double ([80, 8080, 443, 9000] # []) (portsTCP web) 9001
       = ([80, 8080, 443, 9001] # [], \<lparr>array = Some 0, len = 4, cap = 4\<rparr>)
   \<and> \<not> isTCPPortRegistered ([80, 8080, 443, 9001] # [])
        ((cloneWithSuffix web ''-2'')\<lparr>portsTCP := \<lparr>array = Some 0, len = 4, cap = 4\<rparr>\<rparr>) 9000"
  by (simp add: cloneWithSuffix_def web_def web_heap_def slice_index_set_def slice_elems_def
      isTCPPortRegistered_def go_append_def)

text \<open>
  C5, amended. The clone's name and cluster name are the original's with the suffix
  appended. Its \<open>portsTCP\<close> and \<open>portsUDP\<close> are the original's slices copied by assignment,
  on the same backing arrays: in every heap the two instances read the same ports, and an
  element written through the clone's \<open>portsTCP\<close> is written in the original's as well.
\<close>

theorem cloneWithSuffix_names_and_shared_ports:
  "name (cloneWithSuffix i suffix) = name i @ suffix
   \<and> k8sName (cloneWithSuffix i suffix) = k8sName i @ suffix
   \<and> portsTCP (cloneWithSuffix i suffix) = portsTCP i
   \<and> portsUDP (cloneWithSuffix i suffix) = portsUDP i
   \<and> slice_elems H (portsTCP (cloneWithSuffix i suffix)) = slice_elems H (portsTCP i)
   \<and> (slice_index_set H (portsTCP (cloneWithSuffix i suffix)) k v = Some H'
        \<longrightarrow> slice_elems H' (portsTCP i) = (slice_elems H (portsTCP i))[k := v])"
  by (simp add: cloneWithSuffix_def slice_index_set_elems)

theorem cloneWithSuffix_names_and_shared_ports_witness:
  "slice_index_set web_heap (portsTCP (cloneWithSuffix web ''-2'')) 0 9999
     = Some ([9999, 8080, 443, 0] # [])
   \<and> name (cloneWithSuffix web ''-2'') = ''web-2''
   \<and> k8sName (cloneWithSuffix web ''-2'') = ''web-1a2b3c4d-2''
   \<and> slice_elems web_heap (portsTCP web) = [80, 8080, 443]
   \<and> slice_elems ([9999, 8080, 443, 0] # []) (portsTCP web) = [9999, 8080, 443]"
  using cloneWithSuffix_names_and_shared_ports
    [of web "''-2''" web_heap 0 9999 "[9999, 8080, 443, 0] # []"]
  by (simp add: cloneWithSuffix_def web_def web_heap_def slice_index_set_def slice_elems_def)

section \<open>The image reference\<close>

text \<open>
  C6, as claimed, fails: for an instance whose \<open>imageName\<close> is empty the reference is made
  anew at every call, from a new UUID, and is not kept on the instance. Two calls of
  \<open>getImageRegistry\<close> for \<open>web\<close> give two references, and two pod deployments of \<open>web\<close> in
  a row ask for two different images.
\<close>

theorem image_regenerated_counterexample:
  "imageName web = []
   \<and> getImageRegistry cluster web [] = (''ttl.sh/uuid-:1h'', None, [NewRandomCall])
   \<and> getImageRegistry cluster web [NewRandomCall]
       = (''ttl.sh/uuid-x:1h'', None, [NewRandomCall, NewRandomCall])
   \<and> images_of (calls (then_do (deployPod cluster web []) (deployPod cluster)))
       = [''ttl.sh/uuid-:1h'', ''ttl.sh/uuid-xx:1h'']"
  by (simp add: deployPod_def getImageRegistry_def cluster_def web_def Let_def)

text \<open>
  C6, amended. When the instance's \<open>imageName\<close> is set (not empty), \<open>getImageRegistry\<close>
  returns it and draws no UUID, and repeated pod deployments of the instance all ask for
  that image. When \<open>imageName\<close> is empty, every call of \<open>getImageRegistry\<close> draws a UUID;
  and \<open>deployPod\<close> never changes \<open>imageName\<close>, so a generated reference is not kept.
\<close>

theorem image_fixed_when_imageName_set:
  "(imageName i \<noteq> [] \<longrightarrow>
      getImageRegistry w i h = (imageName i, None, h)
      \<and> images_of (calls (deployPod w i h)) = images_of h @ [imageName i]
      \<and> (deployPod w i h = Return None i1 h1 \<longrightarrow>
           images_of (calls (deployPod w i1 h1)) = images_of h @ [imageName i, imageName i]))
   \<and> (imageName i = [] \<longrightarrow> snd (snd (getImageRegistry w i h)) = h @ [NewRandomCall])
   \<and> (deployPod w i h = Return e i1 h1 \<longrightarrow> imageName i1 = imageName i)"
proof (intro conjI impI)
  assume set: "imageName i \<noteq> []"
  show "getImageRegistry w i h = (imageName i, None, h)"
    using set by (simp add: getImageRegistry_def)
  show first: "images_of (calls (deployPod w i h)) = images_of h @ [imageName i]"
    using set by (rule deployPod_image_set)
  assume ret: "deployPod w i h = Return None i1 h1"
  have "imageName i1 = imageName i"
    using ret by (rule deployPod_keeps_imageName)
  moreover have "images_of h1 = images_of h @ [imageName i]"
    using first ret by simp
  ultimately show "images_of (calls (deployPod w i1 h1))
      = images_of h @ [imageName i, imageName i]"
    using set deployPod_image_set [of i1 w h1] by simp
next
  assume "imageName i = []"
  then show "snd (snd (getImageRegistry w i h)) = h @ [NewRandomCall]"
    by (simp add: getImageRegistry_def split: prod.splits option.splits)
next
  assume "deployPod w i h = Return e i1 h1"
  then show "imageName i1 = imageName i" by (rule deployPod_keeps_imageName)
qed

theorem image_fixed_when_imageName_set_witness:
  "imageName web_with_image \<noteq> []
   \<and> getImageRegistry cluster web_with_image [] = (''nginx:1.25'', None, [])
   \<and> deployPod cluster web_with_image []
       = Return None (web_with_image\<lparr>kubernetesStatefulSet := Some 0\<rparr>)
           (calls (deployPod cluster web_with_image []))
   \<and> images_of (calls (deployPod cluster (web_with_image\<lparr>kubernetesStatefulSet := Some 0\<rparr>)
                          (calls (deployPod cluster web_with_image []))))
       = [''nginx:1.25'', ''nginx:1.25'']
   \<and> imageName (web_with_image\<lparr>kubernetesStatefulSet := Some 0\<rparr>) = ''nginx:1.25''
   \<and> imageName web = []
   \<and> snd (snd (getImageRegistry cluster web [])) = [NewRandomCall]"
proof -
  have run: "deployPod cluster web_with_image []
       = Return None (web_with_image\<lparr>kubernetesStatefulSet := Some 0\<rparr>)
           (calls (deployPod cluster web_with_image []))"
    by (simp add: deployPod_def getImageRegistry_def cluster_def web_with_image_def web_def
        Let_def)
  have img: "imageName web_with_image = ''nginx:1.25''" "imageName web = []"
    by (simp_all add: web_with_image_def web_def)
  show ?thesis
    using image_fixed_when_imageName_set [of web_with_image cluster "[]"
        "web_with_image\<lparr>kubernetesStatefulSet := Some 0\<rparr>"
        "calls (deployPod cluster web_with_image [])" None]
      image_fixed_when_imageName_set [of web cluster "[]"] run img
    by simp
qed

section \<open>File staging\<close>

text \<open>
  C9. \<open>validateFileArgs\<close> accepts exactly the arguments whose source, destination and owner
  are all non-empty and whose owner has exactly one \<open>:\<close>; anything else gets one of its four
  argument errors. \<open>addFileToBuilder\<close> hands the builder the destination path twice and the
  owner, never the source path.
\<close>

theorem file_staging_validates_and_forwards_dest:
  "(validateFileArgs i src dest chown = None
      \<longleftrightarrow> src \<noteq> [] \<and> dest \<noteq> [] \<and> chown \<noteq> [] \<and> count_list chown CHR '':'' = 1)
   \<and> validateFileArgs i src dest chown
       \<in> {None, Some SrcMustBeSet, Some DestMustBeSet, Some ChownMustBeSet, Some ChownFormat}
   \<and> (\<exists>e. addFileToBuilder w i h src dest chown
          = Return e i (h @ [AddToBuilderCall (builderFactory i) dest dest chown]))"
  by (auto simp: validateFileArgs_def addFileToBuilder_def length_strings_Split
      strings_Contains_count Let_def split: option.splits)

theorem file_staging_validates_and_forwards_dest_witness:
  "validateFileArgs web ''/src'' ''/dest'' ''u:g'' = None
   \<and> validateFileArgs web [] ''/dest'' ''u:g'' = Some SrcMustBeSet
   \<and> validateFileArgs web ''/src'' ''/dest'' ''u'' = Some ChownFormat
   \<and> addFileToBuilder cluster web [] ''/src'' ''/dest'' ''u:g''
       = Return None web [AddToBuilderCall (Some 0) ''/dest'' ''/dest'' ''u:g'']"
  using file_staging_validates_and_forwards_dest [of web "''/src''" "''/dest''" "''u:g''" cluster "[]"]
    file_staging_validates_and_forwards_dest [of web "[]" "''/dest''" "''u:g''" cluster "[]"]
    file_staging_validates_and_forwards_dest [of web "''/src''" "''/dest''" "''u''" cluster "[]"]
  by (simp add: validateFileArgs_def addFileToBuilder_def cluster_def web_def strings_Contains_def)

end
